theory Spec2Isabelle
  imports Complex_Main
begin

section \<open>JavaScript numbers\<close>

text \<open>
  The opacity computation of the path renderer divides by \<open>points.length - 2\<close>, which is
  zero for a path of two points, so the special values of a JavaScript number are part of
  the model: a number is a finite value, an infinity or NaN. Finite results are exact
  rationals (rounding and the sign of zero are left out; the zero divisor that occurs
  here, \<open>2 - 2\<close>, is the positive zero).
\<close>

datatype jsnum = Fin rat | PInf | NInf | NaN

text \<open>Truthiness of a number: \<open>0\<close> and \<open>NaN\<close> are falsy.\<close>

fun js_truthy :: "jsnum \<Rightarrow> bool" where
  "js_truthy (Fin x) = (x \<noteq> 0)"
| "js_truthy PInf = True"
| "js_truthy NInf = True"
| "js_truthy NaN = False"

fun js_neg :: "jsnum \<Rightarrow> jsnum" where
  "js_neg (Fin x) = Fin (- x)"
| "js_neg PInf = NInf"
| "js_neg NInf = PInf"
| "js_neg NaN = NaN"

fun js_add :: "jsnum \<Rightarrow> jsnum \<Rightarrow> jsnum" where
  "js_add (Fin a) (Fin b) = Fin (a + b)"
| "js_add (Fin a) PInf = PInf"
| "js_add (Fin a) NInf = NInf"
| "js_add PInf (Fin b) = PInf"
| "js_add PInf PInf = PInf"
| "js_add PInf NInf = NaN"
| "js_add NInf (Fin b) = NInf"
| "js_add NInf PInf = NaN"
| "js_add NInf NInf = NInf"
| "js_add NaN b = NaN"
| "js_add a NaN = NaN"

definition js_sub :: "jsnum \<Rightarrow> jsnum \<Rightarrow> jsnum" where
  "js_sub a b = js_add a (js_neg b)"

fun js_mul :: "jsnum \<Rightarrow> jsnum \<Rightarrow> jsnum" where
  "js_mul (Fin a) (Fin b) = Fin (a * b)"
| "js_mul (Fin a) PInf = (if a = 0 then NaN else if 0 < a then PInf else NInf)"
| "js_mul (Fin a) NInf = (if a = 0 then NaN else if 0 < a then NInf else PInf)"
| "js_mul PInf (Fin b) = (if b = 0 then NaN else if 0 < b then PInf else NInf)"
| "js_mul NInf (Fin b) = (if b = 0 then NaN else if 0 < b then NInf else PInf)"
| "js_mul PInf PInf = PInf"
| "js_mul PInf NInf = NInf"
| "js_mul NInf PInf = NInf"
| "js_mul NInf NInf = PInf"
| "js_mul NaN b = NaN"
| "js_mul a NaN = NaN"

fun js_div :: "jsnum \<Rightarrow> jsnum \<Rightarrow> jsnum" where
  "js_div (Fin a) (Fin b) =
     (if b = 0 then (if a = 0 then NaN else if 0 < a then PInf else NInf)
      else Fin (a / b))"
| "js_div (Fin a) PInf = Fin 0"
| "js_div (Fin a) NInf = Fin 0"
| "js_div PInf (Fin b) = (if 0 \<le> b then PInf else NInf)"
| "js_div NInf (Fin b) = (if 0 \<le> b then NInf else PInf)"
| "js_div PInf PInf = NaN"
| "js_div PInf NInf = NaN"
| "js_div NInf PInf = NaN"
| "js_div NInf NInf = NaN"
| "js_div NaN b = NaN"
| "js_div a NaN = NaN"

text \<open>Truthiness of the optional values the component tests.\<close>

definition truthy_num :: "jsnum option \<Rightarrow> bool" where
  "truthy_num v = (case v of None \<Rightarrow> False | Some x \<Rightarrow> js_truthy x)"

definition truthy_rat :: "rat option \<Rightarrow> bool" where
  "truthy_rat v = (case v of None \<Rightarrow> False | Some x \<Rightarrow> x \<noteq> 0)"

definition truthy_str :: "string option \<Rightarrow> bool" where
  "truthy_str v = (case v of None \<Rightarrow> False | Some x \<Rightarrow> x \<noteq> [])"

definition truthy_bool :: "bool option \<Rightarrow> bool" where
  "truthy_bool v = (case v of None \<Rightarrow> False | Some x \<Rightarrow> x)"


section \<open>Data model of \<open>ha-map.ts\<close>\<close>

type_synonym latlng = "rat \<times> rat"

text \<open>\<open>HaMapPathPoint\<close>; the timestamp is a \<open>Date\<close>, kept as milliseconds.\<close>

record ha_map_path_point =
  point :: latlng
  timestamp :: int

text \<open>\<open>HaMapPaths\<close> (its \<open>color\<close> and \<open>name\<close> are prefixed here).\<close>

record ha_map_paths =
  points :: "ha_map_path_point list"
  path_color :: "string option"
  path_name :: "string option"
  gradualOpacity :: "jsnum option"
  fullDatetime :: "bool option"

datatype label_mode = LabelName | LabelState

text \<open>\<open>HaMapEntity\<close>, and the union \<open>string | HaMapEntity\<close> of an entities entry.\<close>

record ha_map_entity =
  entity_id :: string
  entity_color :: string
  label_mode :: "label_mode option"
  entity_name :: "string option"
  focus :: "bool option"

datatype map_entity = EntityId string | EntityConf ha_map_entity

text \<open>
  A state object of the snapshot \<open>hass.states\<close>. The attributes arrive as JSON, so a
  coordinate, a radius or an accuracy is a finite number or missing. \<open>so_ref\<close> is the
  identity of the object, which \<open>!==\<close> compares in \<open>update\<close>.
\<close>

record hass_attributes =
  latitude :: "rat option"
  longitude :: "rat option"
  passive_attr :: "bool option"
  icon :: "string option"
  radius :: "rat option"
  entity_picture :: "string option"
  gps_accuracy :: "rat option"

record hass_entity =
  so_ref :: nat
  so_entity_id :: string
  so_state :: string
  attributes :: hass_attributes

text \<open>
  The part of \<open>HomeAssistant\<close> the component reads: the snapshot, the home coordinate
  \<open>hass.config.latitude/longitude\<close> and \<open>hass.themes.darkMode\<close> (the type declares
  \<open>config\<close> and \<open>themes\<close> as always present).
\<close>

record home_assistant =
  states :: "string \<rightharpoonup> hass_entity"
  config_latitude :: rat
  config_longitude :: rat
  themes_darkMode :: bool

datatype theme_mode = Auto | Dark | Light

text \<open>
  The collaborators imported from outside this file, taken as parameters: the helpers of
  \<open>common/\<close>, the two methods of \<open>hass\<close>, \<open>isToday\<close>, \<open>isTouch\<close>, and the three custom
  properties read through \<open>getComputedStyle\<close>.
\<close>

record env =
  computeStateDomain :: "hass_entity \<Rightarrow> string"
  computeStateName :: "hass_entity \<Rightarrow> string"
  formatEntityState :: "hass_entity \<Rightarrow> string"
  hassUrl :: "string \<Rightarrow> string"
  formatDateTime :: "int \<Rightarrow> home_assistant \<Rightarrow> string"
  formatTimeWithSeconds :: "int \<Rightarrow> home_assistant \<Rightarrow> string"
  formatTimeWeekday :: "int \<Rightarrow> home_assistant \<Rightarrow> string"
  isToday :: "int \<Rightarrow> bool"
  isTouch :: bool
  accentColor :: string
  secondaryTextColor :: string
  darkPrimaryColor :: string


subsection \<open>Leaflet objects\<close>

text \<open>
  The content of a \<open>divIcon\<close>: the serialised \<open>ha-icon\<close> element with its \<open>icon\<close>
  attribute, the \<open>span\<close> element whose \<open>innerHTML\<close> is the given text, or the
  \<open>ha-entity-marker\<close> template with its entity id, name, picture and optional colour.
\<close>

datatype icon_html =
    HaIconEl string
  | SpanEl string
  | EntityMarkerEl string string string "string option"

record div_icon =
  html :: icon_html
  iconSize :: "nat \<times> nat"
  className :: string

text \<open>
  The four kinds of object the component creates, with the options it passes:
  \<^item> \<open>Marker position icon interactive title\<close> (\<open>interactive\<close> is \<open>None\<close> when the option
    is not passed);
  \<^item> \<open>Circle position interactive color radius\<close>;
  \<^item> \<open>CircleMarker position radius color opacity fillOpacity interactive tooltip\<close>, the
    tooltip being the text and direction given to \<open>bindTooltip\<close>;
  \<^item> \<open>Polyline positions color opacity interactive\<close>.
\<close>

datatype layer_obj =
    Marker latlng div_icon "bool option" string
  | Circle latlng bool string "rat option"
  | CircleMarker latlng nat string "jsnum option" "jsnum option" bool "(string \<times> string) option"
  | Polyline "latlng list" string "jsnum option" bool

text \<open>A drawn object is a Leaflet object with its stamp, the identity Leaflet gives it.\<close>

type_synonym drawn = "nat \<times> layer_obj"

text \<open>
  A layer supplied from outside through \<open>layers\<close>: its stamp, whether it has \<open>getBounds\<close>,
  and what its \<open>getLatLng\<close> returns, when it has one.
\<close>

record overlay =
  ov_id :: nat
  ov_hasGetBounds :: bool
  ov_latlng :: "latlng option"

text \<open>
  A bounding region is kept symbolically: the points given to \<open>latLngBounds\<close>, what it was
  extended by, and the padding.
\<close>

datatype extent = ExtentBounds nat | ExtentPoint latlng

record bounds =
  b_points :: "latlng list"
  b_extended :: "extent list"
  b_pad :: jsnum

datatype view_cmd =
    SetView latlng jsnum
  | FitBounds bounds jsnum
  | SetZoom jsnum

text \<open>
  The live map: the stamps of the layers on it and the viewport calls it has received.
\<close>

record lmap =
  layerIds :: "nat list"
  viewCmds :: "view_cmd list"

record map_classes =
  cls_dark :: bool
  cls_forced_dark :: bool
  cls_forced_light :: bool

text \<open>
  The component. \<open>Leaflet\<close> says whether the module handle is set, \<open>resizeObserver\<close> is
  \<open>None\<close> until the observer is created and then says whether it observes, \<open>mapEl\<close> is
  the \<open>#map\<close> element of the shadow root with its three toggled classes. \<open>lastId\<close> is
  Leaflet's stamp counter and \<open>boundsCalls\<close> counts the calls of \<open>Leaflet.latLngBounds\<close>.
\<close>

record ha_map =
  hass :: "home_assistant option"
  entities :: "map_entity list option"
  paths :: "ha_map_paths list option"
  layers :: "overlay list option"
  autoFit :: bool
  renderPassive :: bool
  interactiveZones :: bool
  fitZones :: bool
  themeMode :: theme_mode
  zoom :: jsnum
  loaded :: bool
  leafletMap :: "lmap option"
  Leaflet :: bool
  resizeObserver :: "bool option"
  mapItems :: "drawn list"
  mapFocusItems :: "drawn list"
  mapZones :: "drawn list"
  mapPaths :: "drawn list"
  loading :: bool
  mapEl :: "map_classes option"
  lastId :: nat
  boundsCalls :: nat

datatype js_error = TypeError | LoadError

text \<open>A call returns, or throws; either way the component is left in a state.\<close>

datatype outcome = Ok ha_map | Throw js_error ha_map

fun state_of :: "outcome \<Rightarrow> ha_map" where
  "state_of (Ok s) = s"
| "state_of (Throw e s) = s"

fun and_then :: "outcome \<Rightarrow> (ha_map \<Rightarrow> outcome) \<Rightarrow> outcome" where
  "and_then (Ok s) f = f s"
| "and_then (Throw e s) f = Throw e s"


section \<open>Layers on the live map\<close>

text \<open>
  \<open>map.addLayer(layer)\<close> does nothing for a layer that is on the map already, and
  \<open>layer.remove()\<close> takes the layer off the map it is on. Every object of the component
  is on the component's current map or on none (\<open>leafletMap.remove()\<close> at detach tears
  the old map down with its layers), so a removal acts on the current map.
\<close>

definition addLayer :: "nat \<Rightarrow> lmap \<Rightarrow> lmap" where
  "addLayer i m = (if i \<in> set (layerIds m) then m else m\<lparr>layerIds := layerIds m @ [i]\<rparr>)"

definition removeLayer :: "nat \<Rightarrow> lmap \<Rightarrow> lmap" where
  "removeLayer i m = m\<lparr>layerIds := removeAll i (layerIds m)\<rparr>"

text \<open>\<open>xs.forEach((marker) => map.addLayer(marker))\<close> and \<open>xs.forEach((marker) => marker.remove())\<close>.\<close>

definition addAll :: "drawn list \<Rightarrow> lmap \<Rightarrow> lmap" where
  "addAll xs m = foldl (\<lambda>m' x. addLayer (fst x) m') m xs"

definition removeEach :: "drawn list \<Rightarrow> lmap \<Rightarrow> lmap" where
  "removeEach xs m = foldl (\<lambda>m' x. removeLayer (fst x) m') m xs"

text \<open>Creating a Leaflet object gives it the next stamp.\<close>

definition stamp :: "layer_obj \<Rightarrow> ha_map \<Rightarrow> drawn" where
  "stamp ob s = (lastId s, ob)"


section \<open>The path renderer\<close>

definition getEntityId :: "map_entity \<Rightarrow> string" where
  "getEntityId entity = (case entity of EntityId i \<Rightarrow> i | EntityConf c \<Rightarrow> entity_id c)"

text \<open>The template string renders a missing \<open>path.name\<close> as \<open>undefined\<close>.\<close>

definition computePathTooltip ::
  "env \<Rightarrow> home_assistant \<Rightarrow> ha_map_paths \<Rightarrow> ha_map_path_point \<Rightarrow> string" where
  "computePathTooltip ev h path pt =
     (let formattedTime =
        (if truthy_bool (fullDatetime path) then formatDateTime ev (timestamp pt) h
         else if isToday ev (timestamp pt) then formatTimeWithSeconds ev (timestamp pt) h
         else formatTimeWeekday ev (timestamp pt) h)
      in (case path_name path of None \<Rightarrow> ''undefined'' | Some n \<Rightarrow> n) @ ''<br>'' @ formattedTime)"

text \<open>
  \<open>opacityStep\<close> and \<open>baseOpacity\<close> are set when \<open>path.gradualOpacity\<close> is truthy, and
  \<open>opacity\<close> is \<open>baseOpacity + pointIndex * opacityStep\<close> then, \<open>undefined\<close> otherwise.
\<close>

definition opacityStep :: "ha_map_paths \<Rightarrow> jsnum \<Rightarrow> jsnum" where
  "opacityStep path g = js_div g (Fin (of_int (int (length (points path)) - 2)))"

definition baseOpacity :: "jsnum \<Rightarrow> jsnum" where
  "baseOpacity g = js_sub (Fin 1) g"

definition pathOpacity :: "ha_map_paths \<Rightarrow> nat \<Rightarrow> jsnum option" where
  "pathOpacity path pointIndex =
     (case gradualOpacity path of
        None \<Rightarrow> None
      | Some g \<Rightarrow>
          if js_truthy g
          then Some (js_add (baseOpacity g) (js_mul (Fin (of_nat pointIndex)) (opacityStep path g)))
          else None)"

definition pathColor :: "env \<Rightarrow> ha_map_paths \<Rightarrow> string" where
  "pathColor ev path =
     (case path_color path of
        None \<Rightarrow> darkPrimaryColor ev
      | Some c \<Rightarrow> if c \<noteq> [] then c else darkPrimaryColor ev)"

text \<open>The circle marker of the point at \<open>pointIndex\<close>, with its tooltip bound.\<close>

definition drawPoint :: "env \<Rightarrow> home_assistant \<Rightarrow> ha_map_paths \<Rightarrow> nat \<Rightarrow> layer_obj" where
  "drawPoint ev h path pointIndex =
     CircleMarker (point (points path ! pointIndex))
       (if isTouch ev then 8 else 3)
       (pathColor ev path)
       (pathOpacity path pointIndex)
       (pathOpacity path pointIndex)
       True
       (Some (computePathTooltip ev h path (points path ! pointIndex), ''top''))"

text \<open>The line between the point at \<open>pointIndex\<close> and the next one.\<close>

definition drawLine :: "env \<Rightarrow> ha_map_paths \<Rightarrow> nat \<Rightarrow> layer_obj" where
  "drawLine ev path pointIndex =
     Polyline [point (points path ! pointIndex), point (points path ! (pointIndex + 1))]
       (pathColor ev path)
       (pathOpacity path pointIndex)
       False"

text \<open>\<open>this._mapPaths.push(...)\<close> of a newly created object.\<close>

definition pushPath :: "layer_obj \<Rightarrow> ha_map \<Rightarrow> ha_map" where
  "pushPath ob s = s\<lparr>mapPaths := mapPaths s @ [stamp ob s], lastId := Suc (lastId s)\<rparr>"

text \<open>
  The body of \<open>this.paths.forEach\<close>: the loop over the point pairs (it reads
  \<open>points[pointIndex]\<close> and \<open>points[pointIndex + 1]\<close> below \<open>points.length\<close> only), the
  marker of the end point, and the \<open>addLayer\<close> of everything in \<open>_mapPaths\<close>.
\<close>

definition drawPath :: "env \<Rightarrow> home_assistant \<Rightarrow> ha_map \<Rightarrow> ha_map_paths \<Rightarrow> ha_map" where
  "drawPath ev h s path =
     (let s1 = foldl (\<lambda>s' pointIndex.
                   pushPath (drawLine ev path pointIndex)
                     (pushPath (drawPoint ev h path pointIndex) s'))
                 s [0 ..< length (points path) - 1];
          s2 = (if 1 \<le> length (points path)
                then pushPath (drawPoint ev h path (length (points path) - 1)) s1
                else s1)
      in s2\<lparr>leafletMap := map_option (addAll (mapPaths s2)) (leafletMap s2)\<rparr>)"

definition drawPaths :: "env \<Rightarrow> ha_map \<Rightarrow> ha_map" where
  "drawPaths ev s =
     (case hass s of
        None \<Rightarrow> s
      | Some h \<Rightarrow>
          if leafletMap s = None \<or> \<not> Leaflet s then s
          else
            let s1 = (if mapPaths s \<noteq> []
                      then s\<lparr>leafletMap := map_option (removeEach (mapPaths s)) (leafletMap s),
                             mapPaths := []\<rparr>
                      else s)
            in (case paths s1 of
                  None \<Rightarrow> s1
                | Some ps \<Rightarrow> foldl (drawPath ev h) s1 ps))"


section \<open>The entity renderer\<close>

text \<open>\<open>title.split(" ")\<close>: every space separates, empty parts are kept.\<close>

fun split_on :: "char \<Rightarrow> string \<Rightarrow> string list" where
  "split_on c [] = [[]]"
| "split_on c (x # xs) =
     (if x = c then [] # split_on c xs
      else (case split_on c xs of [] \<Rightarrow> [[x]] | w # ws \<Rightarrow> (x # w) # ws))"

text \<open>
  \<open>title.split(" ").map((part) => part[0]).join("").substr(0, 3)\<close>: an empty part has
  no first character and joins as the empty string.
\<close>

definition initials :: "string \<Rightarrow> string" where
  "initials title = take 3 (concat (map (take 1) (split_on CHR '' '' title)))"

definition pushZone :: "layer_obj \<Rightarrow> ha_map \<Rightarrow> ha_map" where
  "pushZone ob s = s\<lparr>mapZones := mapZones s @ [stamp ob s], lastId := Suc (lastId s)\<rparr>"

definition pushItem :: "layer_obj \<Rightarrow> ha_map \<Rightarrow> ha_map" where
  "pushItem ob s = s\<lparr>mapItems := mapItems s @ [stamp ob s], lastId := Suc (lastId s)\<rparr>"

text \<open>The entity marker goes to \<open>_mapItems\<close> and, when it is to be focused, to \<open>_mapFocusItems\<close> too.\<close>

definition pushMarker :: "bool \<Rightarrow> layer_obj \<Rightarrow> ha_map \<Rightarrow> ha_map" where
  "pushMarker focused ob s =
     s\<lparr>mapItems := mapItems s @ [stamp ob s],
       mapFocusItems := (if focused then mapFocusItems s @ [stamp ob s] else mapFocusItems s),
       lastId := Suc (lastId s)\<rparr>"

definition customTitle :: "map_entity \<Rightarrow> string option" where
  "customTitle entity = (case entity of EntityId i \<Rightarrow> None | EntityConf c \<Rightarrow> entity_name c)"

definition entityTitle :: "env \<Rightarrow> map_entity \<Rightarrow> hass_entity \<Rightarrow> string" where
  "entityTitle ev entity stateObj =
     (case customTitle entity of Some t \<Rightarrow> t | None \<Rightarrow> computeStateName ev stateObj)"

text \<open>The icon of a zone marker.\<close>

definition zoneIconHTML :: "string option \<Rightarrow> string \<Rightarrow> icon_html" where
  "zoneIconHTML ic title =
     (case ic of
        None \<Rightarrow> SpanEl title
      | Some i \<Rightarrow> if i \<noteq> [] then HaIconEl i else SpanEl title)"

definition zoneMarker ::
  "latlng \<Rightarrow> string option \<Rightarrow> string \<Rightarrow> string \<Rightarrow> bool \<Rightarrow> layer_obj" where
  "zoneMarker pos ic title cls interactive =
     Marker pos \<lparr>html = zoneIconHTML ic title, iconSize = (24, 24), className = cls\<rparr>
       (Some interactive) title"

definition zoneCircle :: "env \<Rightarrow> latlng \<Rightarrow> bool option \<Rightarrow> rat option \<Rightarrow> layer_obj" where
  "zoneCircle ev pos pas rad =
     Circle pos False (if truthy_bool pas then secondaryTextColor ev else accentColor ev) rad"

definition entityLabel :: "env \<Rightarrow> map_entity \<Rightarrow> hass_entity \<Rightarrow> string" where
  "entityLabel ev entity stateObj =
     (case entity of
        EntityId i \<Rightarrow> initials (entityTitle ev entity stateObj)
      | EntityConf c \<Rightarrow>
          if label_mode c = Some LabelState then formatEntityState ev stateObj
          else (case customTitle entity of
                  Some t \<Rightarrow> t
                | None \<Rightarrow> initials (entityTitle ev entity stateObj)))"

definition entityMarker :: "env \<Rightarrow> map_entity \<Rightarrow> hass_entity \<Rightarrow> latlng \<Rightarrow> layer_obj" where
  "entityMarker ev entity stateObj pos =
     Marker pos
       \<lparr>html = EntityMarkerEl (getEntityId entity) (entityLabel ev entity stateObj)
                 (case entity_picture (attributes stateObj) of
                    None \<Rightarrow> []
                  | Some pic \<Rightarrow> if pic \<noteq> [] then hassUrl ev pic else [])
                 (case entity of EntityId i \<Rightarrow> None | EntityConf c \<Rightarrow> Some (entity_color c)),
        iconSize = (48, 48), className = []\<rparr>
       None (entityTitle ev entity stateObj)"

definition isFocused :: "map_entity \<Rightarrow> bool" where
  "isFocused entity =
     (case entity of EntityId i \<Rightarrow> True | EntityConf c \<Rightarrow> focus c \<noteq> Some False)"

text \<open>
  The body of \<open>for (const entity of this.entities)\<close>; every \<open>continue\<close> returns the
  component as it is. \<open>cls\<close> is the \<open>className\<close> computed before the loop. The test
  \<open>!(latitude && longitude)\<close> is one of truthiness: a missing coordinate and the
  coordinate \<open>0\<close> are both falsy.
\<close>

definition drawEntity :: "env \<Rightarrow> home_assistant \<Rightarrow> string \<Rightarrow> ha_map \<Rightarrow> map_entity \<Rightarrow> ha_map" where
  "drawEntity ev h cls s entity =
     (case states h (getEntityId entity) of
        None \<Rightarrow> s
      | Some stateObj \<Rightarrow>
          let a = attributes stateObj in
          (case latitude a of
             None \<Rightarrow> s
           | Some lat \<Rightarrow>
               (case longitude a of
                  None \<Rightarrow> s
                | Some lng \<Rightarrow>
                    if \<not> (lat \<noteq> 0 \<and> lng \<noteq> 0) then s
                    else if computeStateDomain ev stateObj = ''zone'' then
                      (if truthy_bool (passive_attr a) \<and> \<not> renderPassive s then s
                       else
                         pushZone (zoneCircle ev (lat, lng) (passive_attr a) (radius a))
                           (pushZone
                              (zoneMarker (lat, lng) (icon a) (entityTitle ev entity stateObj) cls
                                 (interactiveZones s))
                              s))
                    else
                      let s1 = pushMarker (isFocused entity)
                                 (entityMarker ev entity stateObj (lat, lng)) s
                      in if truthy_rat (gps_accuracy a)
                         then pushItem (Circle (lat, lng) False (darkPrimaryColor ev) (gps_accuracy a)) s1
                         else s1)))"

text \<open>\<open>_darkMode\<close> for a present \<open>hass\<close>.\<close>

definition darkModeWith :: "theme_mode \<Rightarrow> home_assistant \<Rightarrow> bool" where
  "darkModeWith tm h = (tm = Dark \<or> (tm = Auto \<and> themes_darkMode h))"

definition drawEntities :: "env \<Rightarrow> ha_map \<Rightarrow> ha_map" where
  "drawEntities ev s =
     (case hass s of
        None \<Rightarrow> s
      | Some h \<Rightarrow>
          if leafletMap s = None \<or> \<not> Leaflet s then s
          else
            let s1 = (if mapItems s \<noteq> []
                      then s\<lparr>leafletMap := map_option (removeEach (mapItems s)) (leafletMap s),
                             mapItems := [], mapFocusItems := []\<rparr>
                      else s);
                s2 = (if mapZones s1 \<noteq> []
                      then s1\<lparr>leafletMap := map_option (removeEach (mapZones s1)) (leafletMap s1),
                              mapZones := []\<rparr>
                      else s1)
            in (case entities s2 of
                  None \<Rightarrow> s2
                | Some ents \<Rightarrow>
                    let cls = (if darkModeWith (themeMode s2) h then ''dark'' else ''light'');
                        s3 = foldl (drawEntity ev h cls) s2 ents;
                        s4 = s3\<lparr>leafletMap := map_option (addAll (mapItems s3)) (leafletMap s3)\<rparr>
                    in s4\<lparr>leafletMap := map_option (addAll (mapZones s4)) (leafletMap s4)\<rparr>))"


section \<open>The viewport fitter\<close>

record fit_options =
  opt_zoom :: "jsnum option"
  opt_pad :: "jsnum option"

text \<open>\<open>options?.zoom || this.zoom\<close> and \<open>options?.pad ?? 0.5\<close>.\<close>

definition requestedZoom :: "fit_options option \<Rightarrow> ha_map \<Rightarrow> jsnum" where
  "requestedZoom options s =
     (case options of
        None \<Rightarrow> zoom s
      | Some opts \<Rightarrow>
          (case opt_zoom opts of
             None \<Rightarrow> zoom s
           | Some z \<Rightarrow> if js_truthy z then z else zoom s))"

definition requestedPad :: "fit_options option \<Rightarrow> jsnum" where
  "requestedPad options =
     (case options of
        None \<Rightarrow> Fin (1 / 2)
      | Some opts \<Rightarrow> (case opt_pad opts of None \<Rightarrow> Fin (1 / 2) | Some p \<Rightarrow> p))"

text \<open>\<open>getLatLng\<close> exists on markers, circles and circle markers, \<open>getBounds\<close> on circles and polylines.\<close>

fun getLatLng :: "layer_obj \<Rightarrow> latlng option" where
  "getLatLng (Marker pos ic ia title) = Some pos"
| "getLatLng (Circle pos ia col rad) = Some pos"
| "getLatLng (CircleMarker pos rad col opa fopa ia tip) = Some pos"
| "getLatLng (Polyline ps col opa ia) = None"

text \<open>\<open>"getBounds" in zone ? zone.getBounds() : zone.getLatLng()\<close>.\<close>

fun extentOf :: "drawn \<Rightarrow> extent" where
  "extentOf (i, Marker pos ic ia title) = ExtentPoint pos"
| "extentOf (i, Circle pos ia col rad) = ExtentBounds i"
| "extentOf (i, CircleMarker pos rad col opa fopa ia tip) = ExtentPoint pos"
| "extentOf (i, Polyline ps col opa ia) = ExtentBounds i"

definition overlayExtent :: "overlay \<Rightarrow> extent option" where
  "overlayExtent l =
     (if ov_hasGetBounds l then Some (ExtentBounds (ov_id l))
      else map_option ExtentPoint (ov_latlng l))"

text \<open>\<open>this.layers?.length\<close> as a condition.\<close>

definition layersLength :: "ha_map \<Rightarrow> bool" where
  "layersLength s = (case layers s of None \<Rightarrow> False | Some ls \<Rightarrow> ls \<noteq> [])"

definition viewCall :: "view_cmd \<Rightarrow> lmap \<Rightarrow> lmap" where
  "viewCall c m = m\<lparr>viewCmds := viewCmds m @ [c]\<rparr>"

text \<open>
  \<open>fitMap\<close>. A focus item without \<open>getLatLng\<close>, or a layer with neither \<open>getBounds\<close> nor
  \<open>getLatLng\<close>, makes the call of the missing method throw.
\<close>

definition fitMap :: "ha_map \<Rightarrow> fit_options option \<Rightarrow> outcome" where
  "fitMap s options =
     (case leafletMap s of
        None \<Rightarrow> Ok s
      | Some m \<Rightarrow>
          if \<not> Leaflet s then Ok s
          else
            (case hass s of
               None \<Rightarrow> Ok s
             | Some h \<Rightarrow>
                 if mapFocusItems s = [] \<and> \<not> layersLength s then
                   Ok (s\<lparr>leafletMap :=
                          Some (viewCall (SetView (config_latitude h, config_longitude h)
                                            (requestedZoom options s)) m)\<rparr>)
                 else
                   (case those (map (\<lambda>item. getLatLng (snd item)) (mapFocusItems s)) of
                      None \<Rightarrow> Throw TypeError s
                    | Some pts \<Rightarrow>
                        let s1 = s\<lparr>boundsCalls := Suc (boundsCalls s)\<rparr>;
                            zs = (if fitZones s1 then map extentOf (mapZones s1) else [])
                        in (case those (map overlayExtent
                                      (case layers s1 of None \<Rightarrow> [] | Some ls \<Rightarrow> ls)) of
                              None \<Rightarrow> Throw TypeError s1
                            | Some ls \<Rightarrow>
                                Ok (s1\<lparr>leafletMap :=
                                        Some (viewCall
                                                (FitBounds
                                                   \<lparr>b_points = pts, b_extended = zs @ ls,
                                                    b_pad = requestedPad options\<rparr>
                                                   (requestedZoom options s1)) m)\<rparr>)))))"

definition fitBounds :: "ha_map \<Rightarrow> latlng list \<Rightarrow> fit_options option \<Rightarrow> ha_map" where
  "fitBounds s boundingbox options =
     (case leafletMap s of
        None \<Rightarrow> s
      | Some m \<Rightarrow>
          if \<not> Leaflet s \<or> hass s = None then s
          else
            s\<lparr>boundsCalls := Suc (boundsCalls s),
              leafletMap :=
                Some (viewCall
                        (FitBounds
                           \<lparr>b_points = boundingbox, b_extended = [], b_pad = requestedPad options\<rparr>
                           (requestedZoom options s)) m)\<rparr>)"

text \<open>\<open>_drawLayers\<close>; \<open>this.leafletMap!\<close> is used only when there is a layer to add.\<close>

definition drawLayers :: "ha_map \<Rightarrow> overlay list option \<Rightarrow> outcome" where
  "drawLayers s prevLayers =
     (let s1 = (case prevLayers of
                  None \<Rightarrow> s
                | Some pl \<Rightarrow>
                    s\<lparr>leafletMap :=
                        map_option (\<lambda>m. foldl (\<lambda>m' l. removeLayer (ov_id l) m') m pl)
                          (leafletMap s)\<rparr>)
      in (case layers s1 of
            None \<Rightarrow> Ok s1
          | Some ls \<Rightarrow>
              (case leafletMap s1 of
                 None \<Rightarrow> if ls = [] then Ok s1 else Throw TypeError s1
               | Some m \<Rightarrow>
                   Ok (s1\<lparr>leafletMap := Some (foldl (\<lambda>m' l. addLayer (ov_id l) m') m ls)\<rparr>))))"


section \<open>Styling and the lifecycle\<close>

text \<open>The getter \<open>_darkMode\<close>: it reads \<open>this.hass.themes\<close> only in the mode \<open>auto\<close>.\<close>

definition get_darkMode :: "ha_map \<Rightarrow> js_error + bool" where
  "get_darkMode s =
     (if themeMode s = Dark then Inr True
      else if themeMode s = Auto then
        (case hass s of None \<Rightarrow> Inl TypeError | Some h \<Rightarrow> Inr (themes_darkMode h))
      else Inr False)"

definition updateMapStyle :: "ha_map \<Rightarrow> outcome" where
  "updateMapStyle s =
     (case mapEl s of
        None \<Rightarrow> Throw TypeError s
      | Some c \<Rightarrow>
          (case get_darkMode s of
             Inl e \<Rightarrow> Throw e s
           | Inr d \<Rightarrow>
               Ok (s\<lparr>mapEl := Some \<lparr>cls_dark = d,
                                    cls_forced_dark = (themeMode s = Dark),
                                    cls_forced_light = (themeMode s = Light)\<rparr>\<rparr>)))"

text \<open>
  \<open>_loadMap\<close> is asynchronous. Up to its \<open>await\<close> it runs at once: \<open>loadMap_start\<close>, which
  says whether an acquisition was started. When \<open>setupLeafletMap\<close> settles, with an
  error or with the new map, the rest runs: \<open>loadMap_resume\<close>.
\<close>

definition loadMap_start :: "ha_map \<Rightarrow> ha_map \<times> bool" where
  "loadMap_start s =
     (if loading s then (s, False)
      else
        (s\<lparr>mapEl := Some (case mapEl s of
                            None \<Rightarrow> \<lparr>cls_dark = False, cls_forced_dark = False,
                                     cls_forced_light = False\<rparr>
                          | Some c \<Rightarrow> c),
           loading := True\<rparr>, True))"

definition loadMap_resume :: "js_error + lmap \<Rightarrow> ha_map \<Rightarrow> outcome" where
  "loadMap_resume result s =
     (case result of
        Inl e \<Rightarrow> Throw e (s\<lparr>loading := False\<rparr>)
      | Inr m \<Rightarrow>
          (case updateMapStyle (s\<lparr>leafletMap := Some m, Leaflet := True\<rparr>) of
             Throw e s1 \<Rightarrow> Throw e (s1\<lparr>loading := False\<rparr>)
           | Ok s1 \<Rightarrow> Ok (s1\<lparr>loaded := True, loading := False\<rparr>)))"

definition attachObserver :: "ha_map \<Rightarrow> ha_map" where
  "attachObserver s = s\<lparr>resizeObserver := Some True\<rparr>"

definition connectedCallback :: "ha_map \<Rightarrow> ha_map \<times> bool" where
  "connectedCallback s = (let (s1, started) = loadMap_start s in (attachObserver s1, started))"

definition disconnectedCallback :: "ha_map \<Rightarrow> ha_map" where
  "disconnectedCallback s =
     (let s1 = (case leafletMap s of
                  None \<Rightarrow> s
                | Some m \<Rightarrow> s\<lparr>leafletMap := None, Leaflet := False\<rparr>);
          s2 = s1\<lparr>loaded := False\<rparr>
      in (case resizeObserver s2 of
            None \<Rightarrow> s2
          | Some b \<Rightarrow> s2\<lparr>resizeObserver := Some False\<rparr>))"

text \<open>
  The component in its document: whether it is attached, and how many acquisitions are
  awaited. The events are the two callbacks and the settling of an awaited acquisition.
\<close>

record component =
  comp :: ha_map
  isConnected :: bool
  inflight :: nat

datatype event = Connect | Disconnect | AcquireDone "js_error + lmap"

fun step :: "component \<Rightarrow> event \<Rightarrow> component" where
  "step c Connect =
     (let (s, started) = connectedCallback (comp c)
      in c\<lparr>comp := s, isConnected := True,
           inflight := (if started then Suc (inflight c) else inflight c)\<rparr>)"
| "step c Disconnect = c\<lparr>comp := disconnectedCallback (comp c), isConnected := False\<rparr>"
| "step c (AcquireDone result) =
     (if inflight c = 0 then c
      else c\<lparr>comp := state_of (loadMap_resume result (comp c)), inflight := inflight c - 1\<rparr>)"

definition run :: "component \<Rightarrow> event list \<Rightarrow> component" where
  "run c evs = foldl step c evs"

text \<open>The component as its class creates it.\<close>

definition new_ha_map :: ha_map where
  "new_ha_map =
     \<lparr>hass = None, entities = None, paths = None, layers = None,
      autoFit = False, renderPassive = False, interactiveZones = False, fitZones = False,
      themeMode = Auto, zoom = Fin 14, loaded = False, leafletMap = None, Leaflet = False,
      resizeObserver = None, mapItems = [], mapFocusItems = [], mapZones = [], mapPaths = [],
      loading = False, mapEl = None, lastId = 0, boundsCalls = 0\<rparr>"


section \<open>The update cycle\<close>

text \<open>
  The keys of \<open>changedProps\<close> that \<open>update\<close> looks at. For \<open>hass\<close> and \<open>layers\<close> the old
  value matters: \<open>None\<close> is an unchanged property, \<open>Some old\<close> a changed one, \<open>old\<close>
  being \<open>None\<close> when the property was \<open>undefined\<close> before.
\<close>

record changed_props =
  ch_hass :: "home_assistant option option"
  ch_entities :: bool
  ch_paths :: bool
  ch_layers :: "overlay list option option"
  ch_loaded :: bool
  ch_zoom :: bool
  ch_themeMode :: bool

definition oldHass :: "changed_props \<Rightarrow> home_assistant option" where
  "oldHass ch = (case ch_hass ch of None \<Rightarrow> None | Some old \<Rightarrow> old)"

text \<open>\<open>oldHass.states[id] !== this.hass!.states[id]\<close>: the two are the same object or not.\<close>

definition statesDiffer :: "home_assistant \<Rightarrow> home_assistant \<Rightarrow> map_entity \<Rightarrow> bool" where
  "statesDiffer old h entity =
     (map_option so_ref (states old (getEntityId entity))
        \<noteq> map_option so_ref (states h (getEntityId entity)))"

text \<open>The first statement of \<open>update\<close> after the guard; the flag is \<open>autoFitRequired\<close>.\<close>

definition updateEntities :: "env \<Rightarrow> ha_map \<Rightarrow> changed_props \<Rightarrow> outcome \<times> bool" where
  "updateEntities ev s ch =
     (if ch_loaded ch \<or> ch_entities ch then (Ok (drawEntities ev s), True)
      else
        (case oldHass ch of
           None \<Rightarrow> (Ok s, False)
         | Some old \<Rightarrow>
             (case entities s of
                None \<Rightarrow> (Ok s, False)
              | Some ents \<Rightarrow>
                  if ents = [] then (Ok s, False)
                  else
                    (case hass s of
                       None \<Rightarrow> (Throw TypeError s, False)
                     | Some h \<Rightarrow>
                         if list_ex (statesDiffer old h) ents
                         then (Ok (drawEntities ev s), True)
                         else (Ok s, False)))))"

definition setZoom :: "ha_map \<Rightarrow> outcome" where
  "setZoom s =
     (case leafletMap s of
        None \<Rightarrow> Throw TypeError s
      | Some m \<Rightarrow> Ok (s\<lparr>leafletMap := Some (viewCall (SetZoom (zoom s)) m)\<rparr>))"

text \<open>The end of \<open>update\<close>: return, or \<open>_updateMapStyle\<close>.\<close>

definition updateStyle :: "ha_map \<Rightarrow> changed_props \<Rightarrow> outcome" where
  "updateStyle s ch =
     (if ch_themeMode ch then updateMapStyle s
      else
        (case ch_hass ch of
           None \<Rightarrow> Ok s
         | Some None \<Rightarrow> updateMapStyle s
         | Some (Some old) \<Rightarrow>
             (case hass s of
                None \<Rightarrow> Throw TypeError s
              | Some h \<Rightarrow>
                  if themes_darkMode old = themes_darkMode h then Ok s
                  else updateMapStyle s)))"

definition update :: "env \<Rightarrow> ha_map \<Rightarrow> changed_props \<Rightarrow> outcome" where
  "update ev s ch =
     (if \<not> loaded s then Ok s
      else
        (case updateEntities ev s ch of
           (Throw e s1, fit1) \<Rightarrow> Throw e s1
         | (Ok s1, fit1) \<Rightarrow>
             let s2 = (if ch_loaded ch \<or> ch_paths ch then drawPaths ev s1 else s1);
                 redraw = (ch_loaded ch \<or> ch_layers ch \<noteq> None);
                 fit2 = (fit1 \<or> redraw)
             in and_then
                  (if redraw
                   then drawLayers s2 (case ch_layers ch of None \<Rightarrow> None | Some old \<Rightarrow> old)
                   else Ok s2)
                  (\<lambda>s3. and_then
                     (if ch_loaded ch \<or> (autoFit s3 \<and> fit2) then fitMap s3 None else Ok s3)
                     (\<lambda>s4. and_then
                        (if ch_zoom ch then setZoom s4 else Ok s4)
                        (\<lambda>s5. updateStyle s5 ch)))))"

section \<open>Derived notions\<close>

text \<open>
  Nothing below is part of the component: these are the notions in which its properties
  are stated. First the kind of an object and the options it was created with.
\<close>

fun isCircleMarker :: "layer_obj \<Rightarrow> bool" where
  "isCircleMarker (CircleMarker pos rad col opa fopa ia tip) = True"
| "isCircleMarker ob = False"

fun isPolyline :: "layer_obj \<Rightarrow> bool" where
  "isPolyline (Polyline ps col opa ia) = True"
| "isPolyline ob = False"


fun opacityOf :: "layer_obj \<Rightarrow> jsnum option" where
  "opacityOf (CircleMarker pos rad col opa fopa ia tip) = opa"
| "opacityOf (Polyline ps col opa ia) = opa"
| "opacityOf ob = None"


fun tooltipOf :: "layer_obj \<Rightarrow> (string \<times> string) option" where
  "tooltipOf (CircleMarker pos rad col opa fopa ia tip) = tip"
| "tooltipOf ob = None"

text \<open>
  The objects the loop body of \<open>_drawPaths\<close> creates for one path, in the order in which
  it pushes them (lemma \<open>drawPath_pushPaths\<close> below), and the pushing of a list of objects.
\<close>

definition pathObjects :: "env \<Rightarrow> home_assistant \<Rightarrow> ha_map_paths \<Rightarrow> layer_obj list" where
  "pathObjects ev h path =
     concat (map (\<lambda>pointIndex. [drawPoint ev h path pointIndex, drawLine ev path pointIndex])
               [0 ..< length (points path) - 1])
     @ (if 1 \<le> length (points path)
        then [drawPoint ev h path (length (points path) - 1)] else [])"

definition pushPaths :: "layer_obj list \<Rightarrow> ha_map \<Rightarrow> ha_map" where
  "pushPaths obs s = foldl (\<lambda>s' ob. pushPath ob s') s obs"


text \<open>What is on the live map: the stamps of its layers, none without a map.\<close>

definition attached :: "ha_map \<Rightarrow> nat set" where
  "attached s = (case leafletMap s of None \<Rightarrow> {} | Some m \<Rightarrow> set (layerIds m))"


section \<open>Concrete inputs\<close>

text \<open>
  Collaborators for the examples: the domain is the part of the entity id before the
  dot, the name and the formatted state are the state string, and the three formatters
  answer with fixed strings.
\<close>

definition env0 :: env where
  "env0 =
     \<lparr>computeStateDomain = (\<lambda>so. takeWhile (\<lambda>c. c \<noteq> CHR ''.'') (so_entity_id so)),
      computeStateName = (\<lambda>so. so_state so),
      formatEntityState = (\<lambda>so. so_state so),
      hassUrl = (\<lambda>u. ''https://ha.local'' @ u),
      formatDateTime = (\<lambda>t h. ''full''),
      formatTimeWithSeconds = (\<lambda>t h. ''seconds''),
      formatTimeWeekday = (\<lambda>t h. ''weekday''),
      isToday = (\<lambda>t. 0 \<le> t),
      isTouch = False,
      accentColor = ''orange'', secondaryTextColor = ''grey'', darkPrimaryColor = ''blue''\<rparr>"

definition attrs0 :: hass_attributes where
  "attrs0 =
     \<lparr>latitude = None, longitude = None, passive_attr = None, icon = None, radius = None,
      entity_picture = None, gps_accuracy = None\<rparr>"

text \<open>
  A snapshot: a zone without an icon, a passive zone with one, a person with an accuracy,
  a person at latitude \<open>0\<close>, and a person without coordinates.
\<close>

definition zone_home :: hass_entity where
  "zone_home =
     \<lparr>so_ref = 1, so_entity_id = ''zone.home'', so_state = ''Home Sweet Home'',
      attributes = attrs0\<lparr>latitude := Some 52, longitude := Some 5, radius := Some 100\<rparr>\<rparr>"

definition zone_work :: hass_entity where
  "zone_work =
     \<lparr>so_ref = 2, so_entity_id = ''zone.work'', so_state = ''Work'',
      attributes = attrs0\<lparr>latitude := Some 51, longitude := Some 4, radius := Some 50,
                          passive_attr := Some True, icon := Some ''mdi:briefcase''\<rparr>\<rparr>"

definition person_ann :: hass_entity where
  "person_ann =
     \<lparr>so_ref = 3, so_entity_id = ''person.ann'', so_state = ''Ann Lee'',
      attributes = attrs0\<lparr>latitude := Some 53, longitude := Some 6, gps_accuracy := Some 20\<rparr>\<rparr>"

definition person_bob :: hass_entity where
  "person_bob =
     \<lparr>so_ref = 4, so_entity_id = ''person.bob'', so_state = ''Bob'',
      attributes = attrs0\<lparr>latitude := Some 0, longitude := Some 7\<rparr>\<rparr>"

definition person_cy :: hass_entity where
  "person_cy =
     \<lparr>so_ref = 5, so_entity_id = ''person.cy'', so_state = ''Cy'', attributes = attrs0\<rparr>"

definition hass0 :: home_assistant where
  "hass0 =
     \<lparr>states = [''zone.home'' \<mapsto> zone_home, ''zone.work'' \<mapsto> zone_work,
                ''person.ann'' \<mapsto> person_ann, ''person.bob'' \<mapsto> person_bob,
                ''person.cy'' \<mapsto> person_cy],
      config_latitude = 52, config_longitude = 5, themes_darkMode = False\<rparr>"

text \<open>
  A path of three points with the gradual opacity \<open>0.6\<close>, and the paths of its first two
  points and of its first point.
\<close>

definition path3 :: ha_map_paths where
  "path3 =
     \<lparr>points = [\<lparr>point = (1, 1), timestamp = 10\<rparr>, \<lparr>point = (2, 2), timestamp = 20\<rparr>,
                \<lparr>point = (3, 3), timestamp = 30\<rparr>],
      path_color = None, path_name = Some ''ann'', gradualOpacity = Some (Fin (3 / 5)),
      fullDatetime = None\<rparr>"

definition path2 :: ha_map_paths where
  "path2 = path3\<lparr>points := [\<lparr>point = (1, 1), timestamp = 10\<rparr>, \<lparr>point = (2, 2), timestamp = 20\<rparr>]\<rparr>"

definition path1 :: ha_map_paths where
  "path1 = path3\<lparr>points := [\<lparr>point = (1, 1), timestamp = 10\<rparr>]\<rparr>"

text \<open>A loaded component with the snapshot, an empty live map and nothing drawn.\<close>

definition ready0 :: ha_map where
  "ready0 =
     new_ha_map
       \<lparr>hass := Some hass0, leafletMap := Some \<lparr>layerIds = [], viewCmds = []\<rparr>,
        Leaflet := True, loaded := True,
        mapEl := Some \<lparr>cls_dark = False, cls_forced_dark = False, cls_forced_light = False\<rparr>\<rparr>"

text \<open>The entities of the examples: all five of the snapshot, and one that is not in it.\<close>

definition entities0 :: "map_entity list" where
  "entities0 =
     [EntityId ''zone.home'', EntityId ''zone.work'',
      EntityConf \<lparr>entity_id = ''person.ann'', entity_color = ''red'', label_mode = None,
                  entity_name = None, focus = None\<rparr>,
      EntityId ''person.bob'', EntityId ''person.cy'', EntityId ''sensor.gone'']"

text \<open>
  The stamps of the entity objects lie between \<open>n\<close> and the counter, and every focus item
  is one of the items.
\<close>

definition stampedFrom :: "nat \<Rightarrow> ha_map \<Rightarrow> bool" where
  "stampedFrom n s =
     ((\<forall>d \<in> set (mapItems s @ mapZones s). n \<le> fst d \<and> fst d < lastId s) \<and>
      set (mapFocusItems s) \<subseteq> set (mapItems s) \<and> n \<le> lastId s)"

text \<open>The same for the path objects.\<close>

definition pathsStampedFrom :: "nat \<Rightarrow> ha_map \<Rightarrow> bool" where
  "pathsStampedFrom n s =
     ((\<forall>d \<in> set (mapPaths s). n \<le> fst d \<and> fst d < lastId s) \<and> n \<le> lastId s)"


text \<open>
  What the two guards at the head of \<open>_drawEntities\<close> leave when the map is \<open>m\<close>: the old
  objects are off the map and the three collections are empty.
\<close>

definition clearedEntities :: "ha_map \<Rightarrow> lmap \<Rightarrow> ha_map" where
  "clearedEntities s m =
     s\<lparr>leafletMap := Some (removeEach (mapZones s) (removeEach (mapItems s) m)),
       mapItems := [], mapFocusItems := [], mapZones := []\<rparr>"

text \<open>The same for \<open>_drawPaths\<close>.\<close>

definition clearedPaths :: "ha_map \<Rightarrow> lmap \<Rightarrow> ha_map" where
  "clearedPaths s m = s\<lparr>leafletMap := Some (removeEach (mapPaths s) m), mapPaths := []\<rparr>"


text \<open>A component that has drawn before: an item, a zone object and a path object on the map.\<close>

definition drawn0 :: ha_map where
  "drawn0 =
     ready0
       \<lparr>entities := Some entities0, paths := Some [path3],
        leafletMap := Some \<lparr>layerIds = [0, 1, 2], viewCmds = []\<rparr>,
        mapItems := [(0, Circle (1, 1) False ''blue'' None)],
        mapZones := [(1, Circle (2, 2) False ''orange'' (Some 10))],
        mapPaths := [(2, Polyline [(1, 1), (2, 2)] ''blue'' None False)],
        lastId := 3\<rparr>"

text \<open>An update in which only \<open>themeMode\<close> has changed.\<close>

definition onlyThemeMode :: changed_props where
  "onlyThemeMode =
     \<lparr>ch_hass = None, ch_entities = False, ch_paths = False, ch_layers = None,
      ch_loaded = False, ch_zoom = False, ch_themeMode = True\<rparr>"

text \<open>
  A new component that has its \<open>hass\<close>, not yet attached; and the same component
  attached, detached while its acquisition is awaited, and then handed the map.
\<close>

definition fresh0 :: component where
  "fresh0 = \<lparr>comp = new_ha_map\<lparr>hass := Some hass0\<rparr>, isConnected = False, inflight = 0\<rparr>"

definition late0 :: component where
  "late0 = run fresh0 [Connect, Disconnect, AcquireDone (Inr \<lparr>layerIds = [], viewCmds = []\<rparr>)]"

text \<open>
  What the renderers keep true of the drawn objects: their stamps are below the counter,
  and every focus item is one of the items.
\<close>

definition drawnInvariant :: "ha_map \<Rightarrow> bool" where
  "drawnInvariant s =
     ((\<forall>d \<in> set (mapItems s @ mapZones s @ mapPaths s). fst d < lastId s) \<and>
      set (mapFocusItems s) \<subseteq> set (mapItems s))"

section \<open>Properties of the path renderer\<close>

lemma pushPaths_eq:
  "pushPaths obs s =
     s\<lparr>mapPaths := mapPaths s @ zip [lastId s ..< lastId s + length obs] obs,
       lastId := lastId s + length obs\<rparr>"
proof (induction obs arbitrary: s)
  case Nil
  show ?case by (simp add: pushPaths_def)
next
  case (Cons ob obs)
  have "pushPaths (ob # obs) s = pushPaths obs (pushPath ob s)"
    by (simp add: pushPaths_def)
  also have "\<dots> = s\<lparr>mapPaths := mapPaths s @ zip [lastId s ..< lastId s + length (ob # obs)] (ob # obs),
       lastId := lastId s + length (ob # obs)\<rparr>"
    by (simp add: Cons.IH pushPath_def stamp_def upt_rec)
  finally show ?case .
qed

lemma pair_loop_pushPaths:
  "foldl (\<lambda>s' i. pushPath (g i) (pushPath (f i) s')) s js
     = pushPaths (concat (map (\<lambda>i. [f i, g i]) js)) s"
  by (induction js arbitrary: s) (simp_all add: pushPaths_def)

lemma pushPaths_append: "pushPaths (xs @ ys) s = pushPaths ys (pushPaths xs s)"
  by (simp add: pushPaths_def)

lemma drawPath_pushPaths:
  "drawPath ev h s path =
     (pushPaths (pathObjects ev h path) s)
       \<lparr>leafletMap := map_option (addAll (mapPaths (pushPaths (pathObjects ev h path) s)))
                        (leafletMap s)\<rparr>"
proof -
  have keep: "leafletMap (pushPaths obs s) = leafletMap s" for obs
    by (simp add: pushPaths_eq)
  have snoc: "pushPath ob (pushPaths obs s) = pushPaths (obs @ [ob]) s" for ob obs
    by (simp add: pushPaths_def)
  show ?thesis
  proof (cases "1 \<le> length (points path)")
    case True
    then show ?thesis
      unfolding drawPath_def pair_loop_pushPaths pathObjects_def Let_def
      by (simp add: snoc keep)
  next
    case False
    then show ?thesis
      unfolding drawPath_def pair_loop_pushPaths pathObjects_def Let_def
      by (simp add: keep)
  qed
qed

lemma mapPaths_drawPath:
  "mapPaths (drawPath ev h s path) =
     mapPaths s @ zip [lastId s ..< lastId s + length (pathObjects ev h path)] (pathObjects ev h path)"
  by (simp add: drawPath_pushPaths pushPaths_eq)

lemma length_pairs: "length (concat (map (\<lambda>i. [f i, g i]) js)) = 2 * length js"
  by (induction js) simp_all

lemma length_pathObjects: "length (pathObjects ev h path) = 2 * length (points path) - 1"
  by (auto simp: pathObjects_def length_pairs)

lemma filter_pairs_points:
  "filter isCircleMarker (concat (map (\<lambda>i. [drawPoint ev h p i, drawLine ev p i]) js))
     = map (drawPoint ev h p) js"
  by (induction js) (simp_all add: drawPoint_def drawLine_def)

lemma filter_pairs_lines:
  "filter isPolyline (concat (map (\<lambda>i. [drawPoint ev h p i, drawLine ev p i]) js))
     = map (drawLine ev p) js"
  by (induction js) (simp_all add: drawPoint_def drawLine_def)

lemma points_of_pathObjects:
  "filter isCircleMarker (pathObjects ev h p) = map (drawPoint ev h p) [0 ..< length (points p)]"
proof (cases "length (points p)")
  case 0
  then show ?thesis by (simp add: pathObjects_def)
next
  case (Suc n)
  then show ?thesis
    by (simp add: pathObjects_def filter_pairs_points) (simp add: drawPoint_def)
qed

lemma lines_of_pathObjects:
  "filter isPolyline (pathObjects ev h p) = map (drawLine ev p) [0 ..< length (points p) - 1]"
  by (simp add: pathObjects_def filter_pairs_lines) (simp add: drawPoint_def)

lemma nth_pairs_even:
  "i < length js \<Longrightarrow> concat (map (\<lambda>i. [f i, g i]) js) ! (2 * i) = f (js ! i)"
proof (induction js arbitrary: i)
  case Nil then show ?case by simp
next
  case (Cons j js)
  then show ?case by (cases i) simp_all
qed

lemma nth_pairs_odd:
  "i < length js \<Longrightarrow> concat (map (\<lambda>i. [f i, g i]) js) ! Suc (2 * i) = g (js ! i)"
proof (induction js arbitrary: i)
  case Nil then show ?case by simp
next
  case (Cons j js)
  then show ?case by (cases i) simp_all
qed

lemma nth_pathObjects_point:
  assumes "i < length (points p)"
  shows "pathObjects ev h p ! (2 * i) = drawPoint ev h p i"
proof (cases "i < length (points p) - 1")
  case True
  then show ?thesis
    by (simp add: pathObjects_def nth_append length_pairs nth_pairs_even)
next
  case False
  with assms have i: "i = length (points p) - 1" by simp
  with assms show ?thesis
    by (simp add: pathObjects_def nth_append length_pairs)
qed

lemma nth_pathObjects_line:
  assumes "i < length (points p) - 1"
  shows "pathObjects ev h p ! Suc (2 * i) = drawLine ev p i"
  using assms by (simp add: pathObjects_def nth_append length_pairs nth_pairs_odd)



lemma snd_nth_stamped:
  "i < length obs \<Longrightarrow> snd (zip [n ..< n + length obs] obs ! i) = obs ! i"
  by simp

lemma map_snd_stamped: "map snd (zip [n ..< n + length obs] obs) = obs"
  by (simp add: map_snd_zip)




lemma length_filter_snd:
  "length (filter (\<lambda>d. P (snd d)) xs) = length (filter P (map snd xs))"
  by (induction xs) simp_all

lemma tooltip_drawPoint:
  "tooltipOf (drawPoint ev h p i) = Some (computePathTooltip ev h p (points p ! i), ''top'')"
  by (simp add: drawPoint_def)


section \<open>Claims about the path renderer\<close>

lemmas ex_defs = env0_def hass0_def path3_def path2_def path1_def ready0_def new_ha_map_def entities0_def
  zone_home_def zone_work_def person_ann_def person_bob_def person_cy_def attrs0_def

lemmas path_defs = drawPaths_def drawPath_def pushPath_def stamp_def drawPoint_def drawLine_def
  pathOpacity_def opacityStep_def baseOpacity_def js_sub_def pathColor_def computePathTooltip_def
  addAll_def addLayer_def removeEach_def removeLayer_def truthy_bool_def

text \<open>
  Claim C4. For a path of \<open>N \<ge> 2\<close> points the body of the loop over the paths pushes
  \<open>2 N - 1\<close> new objects behind those already in \<open>_mapPaths\<close>: exactly \<open>N\<close> circle markers,
  each with a tooltip bound, and exactly \<open>N - 1\<close> polylines. For every point pair the
  marker of the earlier point is followed by the line to the next point, and the last
  object is the marker of the final point, which the code pushes after the loop.
\<close>

theorem path_points_and_segments:
  assumes "2 \<le> length (points p)"
  shows "\<exists>new. mapPaths (drawPath ev h s p) = mapPaths s @ new \<and>
           length (filter (\<lambda>d. isCircleMarker (snd d)) new) = length (points p) \<and>
           length (filter (\<lambda>d. isPolyline (snd d)) new) = length (points p) - 1 \<and>
           length new = 2 * length (points p) - 1 \<and>
           (\<forall>d \<in> set new. isCircleMarker (snd d) \<longrightarrow> tooltipOf (snd d) \<noteq> None) \<and>
           (\<forall>i < length (points p) - 1.
              snd (new ! (2 * i)) = drawPoint ev h p i \<and>
              snd (new ! Suc (2 * i)) = drawLine ev p i) \<and>
           snd (last new) = drawPoint ev h p (length (points p) - 1)"
proof -
  let ?n = "length (points p)"
  let ?obs = "pathObjects ev h p"
  let ?new = "zip [lastId s ..< lastId s + length ?obs] ?obs"
  have len: "length ?obs = 2 * ?n - 1" by (rule length_pathObjects)
  have snds: "map snd ?new = ?obs" by (rule map_snd_stamped)
  have filt: "length (filter (\<lambda>d. P (snd d)) ?new) = length (filter P ?obs)" for P
    unfolding length_filter_snd snds ..
  have c1: "length (filter (\<lambda>d. isCircleMarker (snd d)) ?new) = ?n"
    by (simp only: filt points_of_pathObjects) simp
  have c2: "length (filter (\<lambda>d. isPolyline (snd d)) ?new) = ?n - 1"
    by (simp only: filt lines_of_pathObjects) simp
  have c3: "length ?new = 2 * ?n - 1" using len by simp
  have tips: "\<forall>d \<in> set ?new. isCircleMarker (snd d) \<longrightarrow> tooltipOf (snd d) \<noteq> None"
  proof (intro ballI impI)
    fix d assume dn: "d \<in> set ?new" and cm: "isCircleMarker (snd d)"
    from dn have "snd d \<in> snd ` set ?new" by (rule imageI)
    then have "snd d \<in> set (map snd ?new)" by (simp only: set_map)
    then have "snd d \<in> set ?obs" by (simp only: snds)
    with cm have "snd d \<in> set (filter isCircleMarker ?obs)" by simp
    then obtain i where "snd d = drawPoint ev h p i"
      unfolding points_of_pathObjects by auto
    then show "tooltipOf (snd d) \<noteq> None" by (simp add: tooltip_drawPoint)
  qed
  have pairs: "\<forall>i < ?n - 1. snd (?new ! (2 * i)) = drawPoint ev h p i \<and>
                  snd (?new ! Suc (2 * i)) = drawLine ev p i"
  proof (intro allI impI)
    fix i assume i: "i < ?n - 1"
    then have i': "i < ?n" by simp
    from i have b: "2 * i < length ?obs" "Suc (2 * i) < length ?obs" using len by simp_all
    show "snd (?new ! (2 * i)) = drawPoint ev h p i \<and> snd (?new ! Suc (2 * i)) = drawLine ev p i"
      using b nth_pathObjects_point [OF i', of ev h] nth_pathObjects_line [OF i, of ev h]
      by simp
  qed
  have ne: "?new \<noteq> []" using c3 assms by auto
  have "snd (last ?new) = last (map snd ?new)" using ne by (rule last_map [symmetric])
  also have "\<dots> = last ?obs" by (simp only: snds)
  also have "\<dots> = drawPoint ev h p (?n - 1)"
    using assms by (simp add: pathObjects_def)
  finally have lst: "snd (last ?new) = drawPoint ev h p (?n - 1)" .
  have "mapPaths (drawPath ev h s p) = mapPaths s @ ?new" by (rule mapPaths_drawPath)
  with c1 c2 c3 tips pairs lst show ?thesis by blast
qed

theorem path_points_and_segments_witness:
  "2 \<le> length (points path3) \<and>
   (\<exists>new. mapPaths (drawPath env0 hass0 ready0 path3) = mapPaths ready0 @ new \<and>
      length (filter (\<lambda>d. isCircleMarker (snd d)) new) = 3 \<and>
      length (filter (\<lambda>d. isPolyline (snd d)) new) = 2 \<and>
      length new = 5)"
proof -
  have h: "2 \<le> length (points path3)" by (simp add: path3_def)
  have n: "length (points path3) = 3" by (simp add: path3_def)
  from path_points_and_segments [OF h, of env0 hass0 ready0]
  obtain new where
    "mapPaths (drawPath env0 hass0 ready0 path3) = mapPaths ready0 @ new"
    "length (filter (\<lambda>d. isCircleMarker (snd d)) new) = length (points path3)"
    "length (filter (\<lambda>d. isPolyline (snd d)) new) = length (points path3) - 1"
    "length new = 2 * length (points path3) - 1"
    by blast
  then show ?thesis using h by (auto simp: n)
qed







text \<open>
  Claim C8. The claim has a gradual-opacity path of at most two points special-cased to
  full opacity. The code has no such case: it divides by \<open>points.length - 2\<close> whatever the
  length. For two points and the factor \<open>0.6\<close> the step is \<open>0.6 / 0\<close>, an infinity; the first
  point and the line get \<open>0.4 + 0 * Infinity\<close>, which is NaN, and the last point gets
  \<open>Infinity\<close>. For one point the divisor is \<open>-1\<close> and the point gets \<open>0.4\<close>. Nothing is at
  full opacity.
\<close>

theorem two_point_gradual_path_divides_by_zero:
  "opacityStep path2 (Fin (3 / 5)) = PInf \<and>
   map (opacityOf \<circ> snd) (mapPaths (drawPaths env0 (ready0\<lparr>paths := Some [path2]\<rparr>)))
     = [Some NaN, Some NaN, Some PInf] \<and>
   map (opacityOf \<circ> snd) (mapPaths (drawPaths env0 (ready0\<lparr>paths := Some [path1]\<rparr>)))
     = [Some (Fin (2 / 5))]"
  by (simp add: ex_defs path_defs upt_rec)

section \<open>Properties of the entity renderer\<close>




lemma viewCmds_addAll: "viewCmds (addAll xs m) = viewCmds m"
  unfolding addAll_def
  by (induction xs arbitrary: m) (simp_all add: addLayer_def)

lemma viewCmds_removeEach: "viewCmds (removeEach xs m) = viewCmds m"
  unfolding removeEach_def
  by (induction xs arbitrary: m) (simp_all add: removeLayer_def)

lemmas entity_defs = drawEntity_def pushZone_def pushItem_def pushMarker_def stamp_def Let_def

lemma drawEntity_frame:
  "drawEntity ev h c s e =
     s\<lparr>mapItems := mapItems (drawEntity ev h c s e),
       mapFocusItems := mapFocusItems (drawEntity ev h c s e),
       mapZones := mapZones (drawEntity ev h c s e),
       lastId := lastId (drawEntity ev h c s e)\<rparr>"
  by (simp add: entity_defs split: option.splits)

lemma drawEntity_stampedFrom:
  "stampedFrom n s \<Longrightarrow> stampedFrom n (drawEntity ev h c s e)"
  unfolding stampedFrom_def
  by (auto simp: entity_defs split: option.splits) force+


lemma entity_frame_trans:
  assumes "s' = s\<lparr>mapItems := a, mapFocusItems := b, mapZones := c, lastId := d\<rparr>"
    and "s'' = s'\<lparr>mapItems := a', mapFocusItems := b', mapZones := c', lastId := d'\<rparr>"
  shows "s'' = s\<lparr>mapItems := mapItems s'', mapFocusItems := mapFocusItems s'',
                  mapZones := mapZones s'', lastId := lastId s''\<rparr>"
  using assms by simp

lemma foldl_drawEntity_frame:
  "foldl (drawEntity ev h c) s ents =
     s\<lparr>mapItems := mapItems (foldl (drawEntity ev h c) s ents),
       mapFocusItems := mapFocusItems (foldl (drawEntity ev h c) s ents),
       mapZones := mapZones (foldl (drawEntity ev h c) s ents),
       lastId := lastId (foldl (drawEntity ev h c) s ents)\<rparr>"
proof (induction ents arbitrary: s)
  case Nil
  show ?case by simp
next
  case (Cons e ents)
  show ?case
    using entity_frame_trans [OF drawEntity_frame [of ev h c s e]
                                   Cons.IH [of "drawEntity ev h c s e"]]
    by simp
qed

lemma foldl_drawEntity_leafletMap:
  "leafletMap (foldl (drawEntity ev h c) s ents) = leafletMap s"
  by (subst foldl_drawEntity_frame) simp

lemma foldl_drawEntity_stampedFrom:
  "stampedFrom n s \<Longrightarrow> stampedFrom n (foldl (drawEntity ev h c) s ents)"
  by (induction ents arbitrary: s) (simp_all add: drawEntity_stampedFrom)

lemma leafletMap_clearedEntities:
  "leafletMap (clearedEntities s m) = Some (removeEach (mapZones s) (removeEach (mapItems s) m))"
  by (simp add: clearedEntities_def)

lemma drawEntities_ready:
  assumes "hass s = Some h" and "leafletMap s = Some m" and "Leaflet s"
    and "set (mapFocusItems s) \<subseteq> set (mapItems s)"
  shows "drawEntities ev s =
           (case entities s of
              None \<Rightarrow> clearedEntities s m
            | Some ents \<Rightarrow>
                let s3 = foldl (drawEntity ev h (if darkModeWith (themeMode s) h then ''dark'' else ''light''))
                           (clearedEntities s m) ents
                in s3\<lparr>leafletMap :=
                       Some (addAll (mapZones s3)
                               (addAll (mapItems s3)
                                  (removeEach (mapZones s) (removeEach (mapItems s) m))))\<rparr>)"
proof -
  let ?s1 = "if mapItems s \<noteq> []
             then s\<lparr>leafletMap := map_option (removeEach (mapItems s)) (leafletMap s),
                    mapItems := [], mapFocusItems := []\<rparr>
             else s"
  have empty: "removeEach [] m' = m'" for m' by (simp add: removeEach_def)
  have f: "mapItems s = [] \<Longrightarrow> mapFocusItems s = []" using assms(4) by auto
  have eq: "(if mapZones ?s1 \<noteq> []
             then ?s1\<lparr>leafletMap := map_option (removeEach (mapZones ?s1)) (leafletMap ?s1),
                     mapZones := []\<rparr>
             else ?s1) = clearedEntities s m"
    using assms(2) f by (cases s) (auto simp: clearedEntities_def empty)
  have same: "entities (clearedEntities s m) = entities s"
    "themeMode (clearedEntities s m) = themeMode s"
    by (simp_all add: clearedEntities_def)
  show ?thesis
    unfolding drawEntities_def Let_def eq
    using assms(1,2,3)
    by (simp add: same foldl_drawEntity_leafletMap leafletMap_clearedEntities
          split: option.splits)
qed


lemma attached_Some: "leafletMap s = Some m \<Longrightarrow> attached s = set (layerIds m)"
  by (simp add: attached_def)



lemma drawEntities_fields:
  assumes "hass s = Some h" and "leafletMap s = Some m" and "Leaflet s"
    and "set (mapFocusItems s) \<subseteq> set (mapItems s)"
  shows "hass (drawEntities ev s) = hass s"
    and "entities (drawEntities ev s) = entities s"
    and "Leaflet (drawEntities ev s) = Leaflet s"
    and "themeMode (drawEntities ev s) = themeMode s"
    and "renderPassive (drawEntities ev s) = renderPassive s"
    and "interactiveZones (drawEntities ev s) = interactiveZones s"
    and "mapPaths (drawEntities ev s) = mapPaths s"
    and "leafletMap (drawEntities ev s) \<noteq> None"
  unfolding drawEntities_ready [OF assms]
  by (subst foldl_drawEntity_frame, simp add: clearedEntities_def Let_def split: option.splits)+

lemma drawEntities_stamped:
  assumes "hass s = Some h" and "leafletMap s = Some m" and "Leaflet s"
    and "set (mapFocusItems s) \<subseteq> set (mapItems s)"
  shows "stampedFrom (lastId s) (drawEntities ev s)"
proof -
  have "stampedFrom (lastId s) (clearedEntities s m)"
    by (simp add: stampedFrom_def clearedEntities_def)
  then have "stampedFrom (lastId s) (foldl (drawEntity ev h c) (clearedEntities s m) ents)"
    for c ents by (rule foldl_drawEntity_stampedFrom)
  then show ?thesis
    unfolding drawEntities_ready [OF assms]
    by (auto simp: stampedFrom_def Let_def clearedEntities_def split: option.splits)
qed




lemma lastId_drawPath:
  "lastId (drawPath ev h s p) = lastId s + length (pathObjects ev h p)"
  by (simp add: drawPath_pushPaths pushPaths_eq)


lemma fst_stamped: "d \<in> set (zip [n ..< n + length obs] obs) \<Longrightarrow> n \<le> fst d \<and> fst d < n + length obs"
  by (cases d) (auto dest: set_zip_leftD)

lemma drawPath_pathsStampedFrom:
  "pathsStampedFrom n s \<Longrightarrow> pathsStampedFrom n (drawPath ev h s p)"
  unfolding pathsStampedFrom_def
  by (auto simp: mapPaths_drawPath lastId_drawPath dest!: fst_stamped)

lemma foldl_drawPath_pathsStampedFrom:
  "pathsStampedFrom n s \<Longrightarrow> pathsStampedFrom n (foldl (drawPath ev h) s ps)"
  by (induction ps arbitrary: s) (simp_all add: drawPath_pathsStampedFrom)



lemma drawPaths_ready:
  assumes "hass s = Some h" and "leafletMap s = Some m" and "Leaflet s"
  shows "drawPaths ev s =
           (case paths s of
              None \<Rightarrow> clearedPaths s m
            | Some ps \<Rightarrow> foldl (drawPath ev h) (clearedPaths s m) ps)"
proof -
  have empty: "removeEach [] m' = m'" for m' by (simp add: removeEach_def)
  have eq: "(if mapPaths s \<noteq> []
             then s\<lparr>leafletMap := map_option (removeEach (mapPaths s)) (leafletMap s),
                    mapPaths := []\<rparr>
             else s) = clearedPaths s m"
    using assms(2) by (cases s) (auto simp: clearedPaths_def empty)
  have same: "paths (clearedPaths s m) = paths s" by (simp add: clearedPaths_def)
  show ?thesis
    unfolding drawPaths_def Let_def eq
    using assms by (simp add: same)
qed

lemma drawPaths_stamped:
  assumes "hass s = Some h" and "leafletMap s = Some m" and "Leaflet s"
  shows "pathsStampedFrom (lastId s) (drawPaths ev s)"
proof -
  have "pathsStampedFrom (lastId s) (clearedPaths s m)"
    by (simp add: pathsStampedFrom_def clearedPaths_def)
  then have "pathsStampedFrom (lastId s) (foldl (drawPath ev h) (clearedPaths s m) ps)" for ps
    by (rule foldl_drawPath_pathsStampedFrom)
  then show ?thesis
    unfolding drawPaths_ready [OF assms]
    by (simp add: pathsStampedFrom_def clearedPaths_def split: option.splits)
qed








lemmas render_defs = drawEntities_def drawEntity_def pushZone_def pushItem_def pushMarker_def
  stamp_def getEntityId_def zoneMarker_def zoneCircle_def zoneIconHTML_def entityMarker_def
  entityLabel_def entityTitle_def customTitle_def isFocused_def darkModeWith_def initials_def
  truthy_rat_def truthy_bool_def addAll_def addLayer_def removeEach_def removeLayer_def







lemma zero_coordinate_drawEntity:
  assumes "states h (getEntityId e) = Some so"
    and "latitude (attributes so) = Some 0 \<or> longitude (attributes so) = Some 0"
  shows "drawEntity ev h c s e = s"
  using assms by (auto simp: drawEntity_def Let_def split: option.splits)

lemma zone_drawEntity:
  assumes "states h (getEntityId e) = Some so"
    and "latitude (attributes so) = Some lat" and "longitude (attributes so) = Some lng"
    and "lat \<noteq> 0" and "lng \<noteq> 0"
    and "computeStateDomain ev so = ''zone''"
    and "\<not> (truthy_bool (passive_attr (attributes so)) \<and> \<not> renderPassive s)"
  shows "drawEntity ev h c s e =
           s\<lparr>mapZones := mapZones s @
                [(lastId s, zoneMarker (lat, lng) (icon (attributes so)) (entityTitle ev e so) c
                              (interactiveZones s)),
                 (Suc (lastId s), zoneCircle ev (lat, lng) (passive_attr (attributes so))
                                    (radius (attributes so)))],
             lastId := Suc (Suc (lastId s))\<rparr>"
  using assms by (auto simp: drawEntity_def pushZone_def stamp_def Let_def)


section \<open>What the renderers preserve\<close>

text \<open>
  Without one of the handles a renderer returns at once. The new component satisfies
  \<open>drawnInvariant\<close> and both renderers keep it, so it holds whenever a render starts.
\<close>

lemma drawEntities_not_ready:
  "hass s = None \<or> leafletMap s = None \<or> \<not> Leaflet s \<Longrightarrow> drawEntities ev s = s"
  by (auto simp: drawEntities_def split: option.splits)

lemma drawPaths_not_ready:
  "hass s = None \<or> leafletMap s = None \<or> \<not> Leaflet s \<Longrightarrow> drawPaths ev s = s"
  by (auto simp: drawPaths_def split: option.splits)

lemma drawnInvariant_new: "drawnInvariant new_ha_map"
  by (simp add: drawnInvariant_def new_ha_map_def)

lemma drawPaths_fields:
  assumes "hass s = Some h" and "leafletMap s = Some m" and "Leaflet s"
  shows "mapItems (drawPaths ev s) = mapItems s"
    and "mapFocusItems (drawPaths ev s) = mapFocusItems s"
    and "mapZones (drawPaths ev s) = mapZones s"
proof -
  have step: "mapItems (drawPath ev h t p) = mapItems t \<and>
              mapFocusItems (drawPath ev h t p) = mapFocusItems t \<and>
              mapZones (drawPath ev h t p) = mapZones t" for t p
    by (simp add: drawPath_pushPaths pushPaths_eq)
  have fold: "mapItems (foldl (drawPath ev h) t ps) = mapItems t \<and>
              mapFocusItems (foldl (drawPath ev h) t ps) = mapFocusItems t \<and>
              mapZones (foldl (drawPath ev h) t ps) = mapZones t" for t ps
    by (induction ps arbitrary: t) (simp_all add: step)
  show "mapItems (drawPaths ev s) = mapItems s"
    and "mapFocusItems (drawPaths ev s) = mapFocusItems s"
    and "mapZones (drawPaths ev s) = mapZones s"
    unfolding drawPaths_ready [OF assms]
    by (simp_all add: fold clearedPaths_def split: option.splits)
qed

lemma drawnInvariant_drawEntities:
  assumes "drawnInvariant s"
  shows "drawnInvariant (drawEntities ev s)"
proof (cases "hass s = None \<or> leafletMap s = None \<or> \<not> Leaflet s")
  case True
  then show ?thesis using assms by (simp add: drawEntities_not_ready)
next
  case False
  then obtain h m where rdy: "hass s = Some h" "leafletMap s = Some m" "Leaflet s" by auto
  from assms have foc: "set (mapFocusItems s) \<subseteq> set (mapItems s)"
    by (simp add: drawnInvariant_def)
  have st: "stampedFrom (lastId s) (drawEntities ev s)"
    by (rule drawEntities_stamped [OF rdy foc])
  have pa: "mapPaths (drawEntities ev s) = mapPaths s"
    by (rule drawEntities_fields(7) [OF rdy foc])
  from assms have "\<forall>d \<in> set (mapPaths s). fst d < lastId s"
    by (auto simp: drawnInvariant_def)
  moreover from st have "lastId s \<le> lastId (drawEntities ev s)"
    by (simp add: stampedFrom_def)
  ultimately have "\<forall>d \<in> set (mapPaths s). fst d < lastId (drawEntities ev s)"
    by fastforce
  with st pa show ?thesis
    by (auto simp: drawnInvariant_def stampedFrom_def)
qed

lemma drawnInvariant_drawPaths:
  assumes "drawnInvariant s"
  shows "drawnInvariant (drawPaths ev s)"
proof (cases "hass s = None \<or> leafletMap s = None \<or> \<not> Leaflet s")
  case True
  then show ?thesis using assms by (simp add: drawPaths_not_ready)
next
  case False
  then obtain h m where rdy: "hass s = Some h" "leafletMap s = Some m" "Leaflet s" by auto
  have st: "pathsStampedFrom (lastId s) (drawPaths ev s)"
    by (rule drawPaths_stamped [OF rdy])
  note same = drawPaths_fields [OF rdy, of ev]
  from assms have "\<forall>d \<in> set (mapItems s @ mapZones s). fst d < lastId s"
    by (auto simp: drawnInvariant_def)
  moreover from st have "lastId s \<le> lastId (drawPaths ev s)"
    by (simp add: pathsStampedFrom_def)
  ultimately have "\<forall>d \<in> set (mapItems s @ mapZones s). fst d < lastId (drawPaths ev s)"
    by fastforce
  with st assms show ?thesis
    by (auto simp: drawnInvariant_def pathsStampedFrom_def same)
qed

lemma map_snd_foldl_drawPath:
  "map snd (mapPaths (foldl (drawPath ev h) s ps))
     = map snd (mapPaths s) @ concat (map (pathObjects ev h) ps)"
  by (induction ps arbitrary: s) (simp_all add: mapPaths_drawPath map_snd_stamped)

lemma drawPaths_objects:
  assumes "hass s = Some h" and "leafletMap s = Some m" and "Leaflet s" and "paths s = Some ps"
  shows "map snd (mapPaths (drawPaths ev s)) = concat (map (pathObjects ev h) ps)"
  unfolding drawPaths_ready [OF assms(1-3)] assms(4)
  by (simp add: map_snd_foldl_drawPath clearedPaths_def)


section \<open>Claims about the entity renderer\<close>










text \<open>
  Claim C6, as amended. For a zone that is drawn, the first object pushed to \<open>_mapZones\<close> is
  the marker, followed by the circle. The icon of the marker is the \<open>ha-icon\<close> element of
  the zone's \<open>icon\<close> attribute when that is a non-empty string, and otherwise a \<open>span\<close>
  holding the whole title: the name given in the entity's configuration, or else the
  computed state name. The title is not shortened.
\<close>

theorem zone_marker_icon:
  assumes "states h (getEntityId e) = Some so"
    and "latitude (attributes so) = Some lat" and "longitude (attributes so) = Some lng"
    and "lat \<noteq> 0" and "lng \<noteq> 0"
    and "computeStateDomain ev so = ''zone''"
    and "\<not> (truthy_bool (passive_attr (attributes so)) \<and> \<not> renderPassive s)"
  shows "mapZones (drawEntity ev h c s e) =
           mapZones s @
             [(lastId s,
               Marker (lat, lng)
                 \<lparr>html = (case icon (attributes so) of
                            None \<Rightarrow> SpanEl (entityTitle ev e so)
                          | Some i \<Rightarrow> if i \<noteq> [] then HaIconEl i else SpanEl (entityTitle ev e so)),
                  iconSize = (24, 24), className = c\<rparr>
                 (Some (interactiveZones s)) (entityTitle ev e so)),
              (Suc (lastId s),
               zoneCircle ev (lat, lng) (passive_attr (attributes so)) (radius (attributes so)))] \<and>
         entityTitle ev e so =
           (case e of
              EntityId i \<Rightarrow> computeStateName ev so
            | EntityConf cf \<Rightarrow>
                (case entity_name cf of None \<Rightarrow> computeStateName ev so | Some t \<Rightarrow> t)) \<and>
         mapItems (drawEntity ev h c s e) = mapItems s"
  unfolding zone_drawEntity [OF assms]
  by (simp add: zoneMarker_def zoneIconHTML_def entityTitle_def customTitle_def
        split: map_entity.splits option.splits)

theorem zone_marker_icon_witness:
  "states hass0 (getEntityId (EntityId ''zone.work'')) = Some zone_work \<and>
   latitude (attributes zone_work) = Some 51 \<and> longitude (attributes zone_work) = Some 4 \<and>
   (51 :: rat) \<noteq> 0 \<and> (4 :: rat) \<noteq> 0 \<and>
   computeStateDomain env0 zone_work = ''zone'' \<and>
   \<not> (truthy_bool (passive_attr (attributes zone_work)) \<and> \<not> renderPassive (ready0\<lparr>renderPassive := True\<rparr>)) \<and>
   mapZones (drawEntity env0 hass0 ''light'' (ready0\<lparr>renderPassive := True\<rparr>) (EntityId ''zone.work''))
     = [(0, Marker (51, 4)
               \<lparr>html = HaIconEl ''mdi:briefcase'', iconSize = (24, 24), className = ''light''\<rparr>
               (Some False) ''Work''),
        (1, Circle (51, 4) False ''grey'' (Some 50))]"
proof -
  let ?s = "ready0\<lparr>renderPassive := True\<rparr>"
  have h1: "states hass0 (getEntityId (EntityId ''zone.work'')) = Some zone_work"
    by (simp add: hass0_def getEntityId_def)
  have h2: "latitude (attributes zone_work) = Some 51"
    and h3: "longitude (attributes zone_work) = Some 4"
    by (simp_all add: zone_work_def attrs0_def)
  have h4: "(51 :: rat) \<noteq> 0" and h5: "(4 :: rat) \<noteq> 0" by simp_all
  have h6: "computeStateDomain env0 zone_work = ''zone''"
    by (simp add: env0_def zone_work_def)
  have h7: "\<not> (truthy_bool (passive_attr (attributes zone_work)) \<and> \<not> renderPassive ?s)"
    by simp
  from zone_marker_icon [OF h1 h2 h3 h4 h5 h6 h7, where c = "''light''"]
  have "mapZones (drawEntity env0 hass0 ''light'' ?s (EntityId ''zone.work''))
     = [(0, Marker (51, 4)
               \<lparr>html = HaIconEl ''mdi:briefcase'', iconSize = (24, 24), className = ''light''\<rparr>
               (Some False) ''Work''),
        (1, Circle (51, 4) False ''grey'' (Some 50))]"
    by (simp add: ex_defs entityTitle_def customTitle_def zoneCircle_def truthy_bool_def)
  with h1 h2 h3 h4 h5 h6 h7 show ?thesis by blast
qed


text \<open>
  The claim C6 as stated has a zone without an icon show the first letters of its title,
  at most three characters. The zone \<open>zone.home\<close> has no icon and the title
  \<open>Home Sweet Home\<close>; its marker holds all fifteen characters, not the initials \<open>HSH\<close>
  that \<open>initials\<close> computes for the label of an entity that is not a zone.
\<close>

theorem zone_title_not_truncated_counterexample:
  "icon (attributes zone_home) = None \<and>
   mapZones (drawEntities env0 (ready0\<lparr>entities := Some [EntityId ''zone.home'']\<rparr>))
     = [(0, Marker (52, 5)
               \<lparr>html = SpanEl ''Home Sweet Home'', iconSize = (24, 24), className = ''light''\<rparr>
               (Some False) ''Home Sweet Home''),
        (1, Circle (52, 5) False ''orange'' (Some 100))] \<and>
   \<not> length ''Home Sweet Home'' \<le> 3 \<and>
   initials ''Home Sweet Home'' = ''HSH''"
  by (simp add: ex_defs render_defs)


text \<open>
  Claim C10. For an entity whose state object has the latitude \<open>0\<close> or the longitude \<open>0\<close>,
  the body of the loop over the entities returns the component as it is: the test
  \<open>!(latitude && longitude)\<close> takes the coordinate \<open>0\<close> for a missing one, and nothing is
  drawn for the entity.
\<close>

theorem zero_coordinate_draws_nothing:
  assumes "states h (getEntityId e) = Some so"
    and "latitude (attributes so) = Some 0 \<or> longitude (attributes so) = Some 0"
  shows "drawEntity ev h c s e = s"
  using assms by (rule zero_coordinate_drawEntity)

theorem zero_coordinate_draws_nothing_witness:
  "states hass0 (getEntityId (EntityId ''person.bob'')) = Some person_bob \<and>
   latitude (attributes person_bob) = Some 0 \<and>
   longitude (attributes person_bob) = Some 7 \<and>
   drawEntity env0 hass0 ''light'' ready0 (EntityId ''person.bob'') = ready0"
proof -
  have h1: "states hass0 (getEntityId (EntityId ''person.bob'')) = Some person_bob"
    by (simp add: hass0_def getEntityId_def)
  have h2: "latitude (attributes person_bob) = Some 0" and h3: "longitude (attributes person_bob) = Some 7"
    by (simp_all add: person_bob_def attrs0_def)
  from h2 have "latitude (attributes person_bob) = Some 0 \<or> longitude (attributes person_bob) = Some 0" ..
  from zero_coordinate_draws_nothing [OF h1 this, where ev = env0 and c = "''light''" and s = ready0]
    h1 h2 h3
  show ?thesis by simp
qed


section \<open>Claims about the lifecycle, the update cycle and the viewport\<close>

lemmas life_defs = run_def connectedCallback_def disconnectedCallback_def loadMap_start_def
  loadMap_resume_def attachObserver_def updateMapStyle_def get_darkMode_def

lemma disconnectedCallback_releases:
  "leafletMap (disconnectedCallback s) = None \<and> \<not> loaded (disconnectedCallback s)"
  by (simp add: disconnectedCallback_def Let_def split: option.splits)


text \<open>
  Claim C7. Detaching releases the map handle and resets \<open>_loaded\<close>, whatever the state
  (the lemma above). The claim goes on: an acquisition awaited at that moment is
  discarded when it completes. The code has nothing that does so: the continuation of
  \<open>_loadMap\<close> stores the handle and sets \<open>_loaded\<close> without looking at whether the component
  is still attached. After attach, detach and the completion of the acquisition, the
  component is detached, holds the late map and is ready.
\<close>

theorem late_acquisition_is_committed:
  "leafletMap (comp (run fresh0 [Connect, Disconnect])) = None \<and>
   \<not> loaded (comp (run fresh0 [Connect, Disconnect])) \<and>
   inflight (run fresh0 [Connect, Disconnect]) = 1 \<and>
   \<not> isConnected late0 \<and>
   loaded (comp late0) \<and>
   leafletMap (comp late0) = Some \<lparr>layerIds = [], viewCmds = []\<rparr> \<and>
   Leaflet (comp late0)"
  by (simp add: late0_def fresh0_def new_ha_map_def hass0_def life_defs)


text \<open>
  Claim C9. In an update in which only \<open>themeMode\<close> has changed, \<open>update\<close> does what
  \<open>_updateMapStyle\<close> does when the component is loaded, and nothing otherwise. Whether
  it returns or throws, the component differs from the one before in the classes of the
  \<open>#map\<close> element at most: the four collections of drawn objects and the live map are
  the same. When the component is loaded, the element exists and \<open>hass\<close> is there to be
  read in the mode \<open>auto\<close>, the call returns with the three classes \<open>dark\<close>,
  \<open>forced-dark\<close> and \<open>forced-light\<close> set from the theme mode.
\<close>

theorem theme_change_only_restyles:
  assumes "ch_themeMode ch" and "ch_hass ch = None" and "\<not> ch_entities ch" and "\<not> ch_paths ch"
    and "ch_layers ch = None" and "\<not> ch_loaded ch" and "\<not> ch_zoom ch"
  shows "update ev s ch = (if loaded s then updateMapStyle s else Ok s) \<and>
         state_of (update ev s ch) = s\<lparr>mapEl := mapEl (state_of (update ev s ch))\<rparr> \<and>
         mapItems (state_of (update ev s ch)) = mapItems s \<and>
         mapFocusItems (state_of (update ev s ch)) = mapFocusItems s \<and>
         mapZones (state_of (update ev s ch)) = mapZones s \<and>
         mapPaths (state_of (update ev s ch)) = mapPaths s \<and>
         leafletMap (state_of (update ev s ch)) = leafletMap s \<and>
         (loaded s \<and> mapEl s \<noteq> None \<and> (themeMode s = Auto \<longrightarrow> hass s \<noteq> None) \<longrightarrow>
            update ev s ch =
              Ok (s\<lparr>mapEl := Some \<lparr>cls_dark = (themeMode s = Dark \<or>
                                                  (themeMode s = Auto \<and>
                                                   (case hass s of None \<Rightarrow> False
                                                    | Some h \<Rightarrow> themes_darkMode h))),
                                      cls_forced_dark = (themeMode s = Dark),
                                      cls_forced_light = (themeMode s = Light)\<rparr>\<rparr>))"
proof -
  have u: "update ev s ch = (if loaded s then updateMapStyle s else Ok s)"
    using assms
    by (simp add: update_def updateEntities_def oldHass_def updateStyle_def Let_def)
  have only: "state_of (updateMapStyle s) = s\<lparr>mapEl := mapEl (state_of (updateMapStyle s))\<rparr>"
    by (simp add: updateMapStyle_def split: option.splits sum.splits)
  have frame: "state_of (update ev s ch) = s\<lparr>mapEl := mapEl (state_of (update ev s ch))\<rparr>"
    unfolding u using only by simp
  have styled: "loaded s \<and> mapEl s \<noteq> None \<and> (themeMode s = Auto \<longrightarrow> hass s \<noteq> None) \<longrightarrow>
            update ev s ch =
              Ok (s\<lparr>mapEl := Some \<lparr>cls_dark = (themeMode s = Dark \<or>
                                                  (themeMode s = Auto \<and>
                                                   (case hass s of None \<Rightarrow> False
                                                    | Some h \<Rightarrow> themes_darkMode h))),
                                      cls_forced_dark = (themeMode s = Dark),
                                      cls_forced_light = (themeMode s = Light)\<rparr>\<rparr>)"
    unfolding u
    by (cases "themeMode s") (auto simp: updateMapStyle_def get_darkMode_def)
  have f1: "mapItems (state_of (update ev s ch)) = mapItems s"
    and f2: "mapFocusItems (state_of (update ev s ch)) = mapFocusItems s"
    and f3: "mapZones (state_of (update ev s ch)) = mapZones s"
    and f4: "mapPaths (state_of (update ev s ch)) = mapPaths s"
    and f5: "leafletMap (state_of (update ev s ch)) = leafletMap s"
    by (subst frame, simp)+
  show ?thesis by (intro conjI u frame f1 f2 f3 f4 f5 styled)
qed

theorem theme_change_only_restyles_witness:
  "ch_themeMode onlyThemeMode \<and> ch_hass onlyThemeMode = None \<and> \<not> ch_entities onlyThemeMode \<and>
   \<not> ch_paths onlyThemeMode \<and> ch_layers onlyThemeMode = None \<and> \<not> ch_loaded onlyThemeMode \<and>
   \<not> ch_zoom onlyThemeMode \<and>
   update env0 (drawn0\<lparr>themeMode := Dark\<rparr>) onlyThemeMode =
     Ok (drawn0\<lparr>themeMode := Dark,
                mapEl := Some \<lparr>cls_dark = True, cls_forced_dark = True, cls_forced_light = False\<rparr>\<rparr>) \<and>
   mapItems (state_of (update env0 (drawn0\<lparr>themeMode := Dark\<rparr>) onlyThemeMode))
     = [(0, Circle (1, 1) False ''blue'' None)]"
proof -
  have h: "ch_themeMode onlyThemeMode" "ch_hass onlyThemeMode = None" "\<not> ch_entities onlyThemeMode"
    "\<not> ch_paths onlyThemeMode" "ch_layers onlyThemeMode = None" "\<not> ch_loaded onlyThemeMode"
    "\<not> ch_zoom onlyThemeMode"
    by (simp_all add: onlyThemeMode_def)
  note c = theme_change_only_restyles [OF h, of env0 "drawn0\<lparr>themeMode := Dark\<rparr>"]
  have pre: "loaded (drawn0\<lparr>themeMode := Dark\<rparr>) \<and> mapEl (drawn0\<lparr>themeMode := Dark\<rparr>) \<noteq> None \<and>
             (themeMode (drawn0\<lparr>themeMode := Dark\<rparr>) = Auto \<longrightarrow> hass (drawn0\<lparr>themeMode := Dark\<rparr>) \<noteq> None)"
    by (simp add: drawn0_def ready0_def new_ha_map_def)
  note styled = c [THEN conjunct2, THEN conjunct2, THEN conjunct2, THEN conjunct2,
                    THEN conjunct2, THEN conjunct2, THEN conjunct2]
  from mp [OF styled pre]
  have "update env0 (drawn0\<lparr>themeMode := Dark\<rparr>) onlyThemeMode =
     Ok (drawn0\<lparr>themeMode := Dark,
                mapEl := Some \<lparr>cls_dark = True, cls_forced_dark = True, cls_forced_light = False\<rparr>\<rparr>)"
    by simp
  moreover from c [THEN conjunct2, THEN conjunct2, THEN conjunct1]
  have "mapItems (state_of (update env0 (drawn0\<lparr>themeMode := Dark\<rparr>) onlyThemeMode))
     = [(0, Circle (1, 1) False ''blue'' None)]"
    by (simp add: drawn0_def)
  ultimately show ?thesis using h by simp
qed


text \<open>
  Claim C5, as amended. Let \<open>fitMap\<close> be called with no focus item and no layer. With
  the map, the Leaflet module and \<open>hass\<close> present it calls \<open>setView\<close> once, with the home
  coordinate of the configuration and with the requested zoom when that is truthy, the
  \<open>zoom\<close> property otherwise (no options, no zoom among them, or the zoom \<open>0\<close> or NaN:
  \<open>options?.zoom || this.zoom\<close>). Without one of the three it returns the component as it
  is. Either way it returns and does not throw, and \<open>Leaflet.latLngBounds\<close> is not called.
\<close>

theorem fit_empty_centers_on_home:
  assumes "mapFocusItems s = []" and "layers s = None \<or> layers s = Some []"
  shows "fitMap s options =
           (case leafletMap s of
              None \<Rightarrow> Ok s
            | Some m \<Rightarrow>
                (case hass s of
                   None \<Rightarrow> Ok s
                 | Some h \<Rightarrow>
                     if Leaflet s then
                       Ok (s\<lparr>leafletMap :=
                              Some (m\<lparr>viewCmds := viewCmds m @
                                      [SetView (config_latitude h, config_longitude h)
                                         (case options of
                                            None \<Rightarrow> zoom s
                                          | Some opts \<Rightarrow>
                                              (case opt_zoom opts of
                                                 None \<Rightarrow> zoom s
                                               | Some z \<Rightarrow> if js_truthy z then z else zoom s))]\<rparr>)\<rparr>)
                     else Ok s)) \<and>
         (\<exists>t. fitMap s options = Ok t) \<and>
         boundsCalls (state_of (fitMap s options)) = boundsCalls s"
  using assms
  by (auto simp: fitMap_def layersLength_def viewCall_def requestedZoom_def
        split: option.splits)

theorem fit_empty_centers_on_home_witness:
  "mapFocusItems ready0 = [] \<and> layers ready0 = None \<and>
   fitMap ready0 (Some \<lparr>opt_zoom = Some (Fin 9), opt_pad = None\<rparr>) =
     Ok (ready0\<lparr>leafletMap := Some \<lparr>layerIds = [], viewCmds = [SetView (52, 5) (Fin 9)]\<rparr>\<rparr>) \<and>
   boundsCalls (state_of (fitMap ready0 (Some \<lparr>opt_zoom = Some (Fin 9), opt_pad = None\<rparr>))) = 0"
proof -
  have h1: "mapFocusItems ready0 = []" and h2': "layers ready0 = None"
    by (simp_all add: ready0_def new_ha_map_def)
  from h2' have h2: "layers ready0 = None \<or> layers ready0 = Some []" ..
  note c = fit_empty_centers_on_home [OF h1 h2, of "Some \<lparr>opt_zoom = Some (Fin 9), opt_pad = None\<rparr>"]
  from c have "fitMap ready0 (Some \<lparr>opt_zoom = Some (Fin 9), opt_pad = None\<rparr>) =
     Ok (ready0\<lparr>leafletMap := Some \<lparr>layerIds = [], viewCmds = [SetView (52, 5) (Fin 9)]\<rparr>\<rparr>)"
    by (simp add: ready0_def new_ha_map_def hass0_def)
  moreover from c have "boundsCalls (state_of (fitMap ready0 (Some \<lparr>opt_zoom = Some (Fin 9), opt_pad = None\<rparr>))) = 0"
    by (simp add: ready0_def new_ha_map_def)
  ultimately show ?thesis using h1 h2' by simp
qed


text \<open>
  The claim C5 as stated centers on the home coordinate whenever \<open>fitMap\<close> is called with
  nothing to fit, at the requested zoom if there is one. A component without its map
  returns from the guard and no view is set. And on a loaded component a requested zoom
  of \<open>0\<close> (the whole world, a zoom level Leaflet accepts) is falsy: the view is set at
  the \<open>zoom\<close> property, here \<open>14\<close>.
\<close>

theorem fit_requested_zoom_zero_counterexample:
  "mapFocusItems new_ha_map = [] \<and> layers new_ha_map = None \<and>
   fitMap (new_ha_map\<lparr>hass := Some hass0\<rparr>) (Some \<lparr>opt_zoom = Some (Fin 9), opt_pad = None\<rparr>)
     = Ok (new_ha_map\<lparr>hass := Some hass0\<rparr>) \<and>
   leafletMap (new_ha_map\<lparr>hass := Some hass0\<rparr>) = None \<and>
   mapFocusItems ready0 = [] \<and> layers ready0 = None \<and> zoom ready0 = Fin 14 \<and>
   fitMap ready0 (Some \<lparr>opt_zoom = Some (Fin 0), opt_pad = None\<rparr>) =
     Ok (ready0\<lparr>leafletMap := Some \<lparr>layerIds = [], viewCmds = [SetView (52, 5) (Fin 14)]\<rparr>\<rparr>) \<and>
   Fin 14 \<noteq> Fin 0"
  by (simp add: ready0_def new_ha_map_def hass0_def fitMap_def layersLength_def viewCall_def
        requestedZoom_def)

end
